theory Spec2Isabelle
  imports Main "HOL-Library.Sublist"
begin

section \<open>JavaScript values used by the service\<close>

text \<open>
  Strings are modelled as \<^typ>\<open>string\<close>.  An optional property of an object
  (\<^verbatim>\<open>field?: T\<close>) is an \<^typ>\<open>'a option\<close>: \<^term>\<open>None\<close> is
  \<^verbatim>\<open>undefined\<close>.

  An exception is a value: \<open>Error m\<close> is \<^verbatim>\<open>new Error(m)\<close>, and
  \<open>TypeError m\<close> is the error the runtime itself raises when a property of
  \<^verbatim>\<open>undefined\<close> is read or a non-iterable value is iterated (the
  wording of its message is the engine's, here V8's).
\<close>

datatype js_error = Error string | TypeError string

fun message :: "js_error \<Rightarrow> string" where
  "message (Error m) = m"
| "message (TypeError m) = m"

text \<open>Truthiness of a string that may be \<^verbatim>\<open>undefined\<close>: only a non-empty string is truthy.\<close>

fun truthy :: "string option \<Rightarrow> bool" where
  "truthy None = False"
| "truthy (Some s) = (s \<noteq> [])"

text \<open>What a template literal or \<^verbatim>\<open>+\<close> renders for a string that may be \<^verbatim>\<open>undefined\<close>.\<close>

fun toString :: "string option \<Rightarrow> string" where
  "toString None = ''undefined''"
| "toString (Some s) = s"

text \<open>
  \<^verbatim>\<open>String.prototype.trim\<close>: white space and line terminators are removed
  from both ends.  Of JavaScript's white-space code points, those a \<^typ>\<open>char\<close>
  can hold are listed: tab, line feed, vertical tab, form feed, carriage return, space
  and no-break space (U+00A0).
\<close>

definition isWhiteSpace :: "char \<Rightarrow> bool" where
  "isWhiteSpace c =
     (c \<in> {CHR 0x09, CHR 0x0A, CHR 0x0B, CHR 0x0C, CHR 0x0D, CHR 0x20, CHR 0xA0})"

definition trim :: "string \<Rightarrow> string" where
  "trim s = rev (dropWhile isWhiteSpace (rev (dropWhile isWhiteSpace s)))"

text \<open>\<^verbatim>\<open>Array.prototype.join\<close> on an array of strings.\<close>

fun join :: "string \<Rightarrow> string list \<Rightarrow> string" where
  "join sep [] = []"
| "join sep [x] = x"
| "join sep (x # y # ys) = x @ sep @ join sep (y # ys)"

section \<open>Data model (types.ts and the reply of the API)\<close>

text \<open>
  The interfaces of \<^verbatim>\<open>types.ts\<close>.  Field names carry the interface's
  initials where two interfaces share a name.  The \<^verbatim>\<open>icon\<close> fields are
  never read by the service and are left out.
\<close>

record BrandColor =
  bc_name :: string
  bc_colors :: "string list"
  bc_id :: string

record VisualStyle =
  vs_name :: string
  vs_description :: string
  vs_id :: string

record GraphicType =
  gt_name :: string
  gt_id :: string

record GenerationConfig =
  prompt :: string
  colorSchemeId :: string
  visualStyleId :: string
  graphicTypeId :: string
  aspectRatio :: string

record GenerationContext =
  brandColors :: "BrandColor list"
  visualStyles :: "VisualStyle list"
  graphicTypes :: "GraphicType list"

text \<open>
  \<^verbatim>\<open>GeneratedImage\<close>.  \<^verbatim>\<open>base64Data\<close> is declared a string, but
  the extractor copies it from the reply without a check, so at run time it is
  \<^verbatim>\<open>undefined\<close> when the reply's blob has no data.
\<close>

record GeneratedImage =
  imageUrl :: string
  base64Data :: "string option"
  mimeType :: string

text \<open>
  The reply of \<^verbatim>\<open>ai.models.generateContent\<close>, as far as the extractor reads
  it: \<^verbatim>\<open>response.candidates[0].content.parts\<close>, and of each part
  \<^verbatim>\<open>inlineData\<close> (with \<^verbatim>\<open>data\<close> and \<^verbatim>\<open>mimeType\<close>) and
  \<^verbatim>\<open>text\<close>.  Every one of these properties is optional in the reply.
\<close>

record Blob =
  blob_data :: "string option"
  blob_mimeType :: "string option"

record Part =
  part_inlineData :: "Blob option"
  part_text :: "string option"

record Content =
  content_parts :: "Part list option"

record Candidate =
  cand_content :: "Content option"

record Response =
  candidates :: "Candidate list option"

section \<open>The response extractor (geminiService.ts, extractImageFromResponse)\<close>

text \<open>
  The \<^verbatim>\<open>for ... of\<close> loop with its \<^verbatim>\<open>break\<close>: the first part whose
  \<^verbatim>\<open>inlineData\<close> is truthy (an object is truthy, so: present), or
  \<^verbatim>\<open>null\<close>.
\<close>

fun findImagePart :: "Part list \<Rightarrow> Part option" where
  "findImagePart [] = None"
| "findImagePart (part # rest) =
     (if part_inlineData part \<noteq> None then Some part else findImagePart rest)"

definition extractImageFromResponse :: "Response \<Rightarrow> js_error + GeneratedImage" where
  "extractImageFromResponse response =
     (case candidates response of
        None \<Rightarrow> Inl (Error ''No candidates returned from API.'')
      | Some [] \<Rightarrow> Inl (Error ''No candidates returned from API.'')
      | Some (c # _) \<Rightarrow>
         (case cand_content c of
            None \<Rightarrow> Inl (TypeError ''Cannot read properties of undefined (reading 'parts')'')
          | Some content \<Rightarrow>
             (case content_parts content of
                None \<Rightarrow> Inl (TypeError ''parts is not iterable'')
              | Some parts \<Rightarrow>
                 (case findImagePart parts of
                    None \<Rightarrow>
                      (case find (\<lambda>p. truthy (part_text p)) parts of
                         Some textPart \<Rightarrow>
                           Inl (Error (''Model returned text instead of image: ''
                                       @ toString (part_text textPart)))
                       | None \<Rightarrow> Inl (Error ''No image data found in response.''))
                  | Some imagePart \<Rightarrow>
                      (case part_inlineData imagePart of
                         None \<Rightarrow> Inl (TypeError ''Cannot read properties of undefined (reading 'data')'')
                       | Some inlineData \<Rightarrow>
                          (let base64Data = blob_data inlineData;
                               mimeType = (if truthy (blob_mimeType inlineData)
                                           then toString (blob_mimeType inlineData)
                                           else ''image/png'');
                               imageUrl = ''data:'' @ mimeType @ '';base64,'' @ toString base64Data
                           in Inr \<lparr>imageUrl = imageUrl, base64Data = base64Data,
                                    mimeType = mimeType\<rparr>))))))"

section \<open>Prompt construction (geminiService.ts, constructFullPrompt)\<close>

text \<open>
  \<^verbatim>\<open>Array.prototype.find\<close> is \<^const>\<open>find\<close>: the first element that
  satisfies the predicate, or \<^verbatim>\<open>undefined\<close>.  The template literal is
  written out with its line breaks and indentation, and trimmed as a whole.
\<close>

definition constructFullPrompt :: "GenerationConfig \<Rightarrow> GenerationContext \<Rightarrow> string" where
  "constructFullPrompt config context =
     (let colorScheme = find (\<lambda>c. bc_id c = colorSchemeId config) (brandColors context);
          style = find (\<lambda>s. vs_id s = visualStyleId config) (visualStyles context);
          type = find (\<lambda>t. gt_id t = graphicTypeId config) (graphicTypes context);
          colors = (case colorScheme of Some c \<Rightarrow> join '', '' (bc_colors c)
                                      | None \<Rightarrow> ''standard colors'');
          styleDesc = (case style of Some s \<Rightarrow> vs_description s | None \<Rightarrow> ''clean style'');
          typeName = (case type of Some t \<Rightarrow> gt_name t | None \<Rightarrow> ''image'')
      in trim (''\<newline>    Create a '' @ typeName @ ''.\<newline>''
               @ ''    Visual Style: '' @ styleDesc @ ''.\<newline>''
               @ ''    Color Palette: Strictly use these colors: '' @ colors @ ''.\<newline>''
               @ ''    \<newline>''
               @ ''    Content Request: '' @ prompt config @ ''\<newline>''
               @ ''    \<newline>''
               @ ''    Ensure the output is high quality and adheres to the style constraints.\<newline>''
               @ ''  ''))"

section \<open>The two requests (geminiService.ts, generateGraphic and refineGraphic)\<close>

text \<open>
  The argument of \<^verbatim>\<open>ai.models.generateContent\<close>: the model, the parts of
  \<^verbatim>\<open>contents\<close> and the aspect ratio of \<^verbatim>\<open>config.imageConfig\<close>.
\<close>

record Request =
  req_model :: string
  req_parts :: "Part list"
  req_aspectRatio :: string

definition NANO_BANANA_MODEL :: string where
  "NANO_BANANA_MODEL = ''gemini-2.5-flash-image''"

text \<open>
  The call to the API is a parameter: it resolves with a reply (\<open>Inr\<close>) or rejects
  (\<open>Inl\<close>).  \<^verbatim>\<open>await\<close> is sequential composition.  A function of the
  service returns what it wrote with \<^verbatim>\<open>console.error\<close> (label and error)
  together with its result: \<open>Inr\<close> when the promise resolves, \<open>Inl\<close> when it
  rejects.
\<close>

type_synonym api = "Request \<Rightarrow> js_error + Response"

type_synonym console = "(string \<times> js_error) list"

definition generateGraphic ::
  "api \<Rightarrow> GenerationConfig \<Rightarrow> GenerationContext \<Rightarrow> console \<times> (js_error + GeneratedImage)" where
  "generateGraphic generateContent config context =
     (let fullPrompt = constructFullPrompt config context
      in case (case generateContent
                      \<lparr>req_model = NANO_BANANA_MODEL,
                       req_parts = [\<lparr>part_inlineData = None, part_text = Some fullPrompt\<rparr>],
                       req_aspectRatio = aspectRatio config\<rparr> of
                 Inl rejected \<Rightarrow> Inl rejected
               | Inr response \<Rightarrow> extractImageFromResponse response) of
           Inr img \<Rightarrow> ([], Inr img)
         | Inl err \<Rightarrow>
             ([(''Gemini Generation Error:'', err)],
              Inl (Error ''Failed to generate image. Please try again.'')))"

text \<open>The constant \<^verbatim>\<open>fullRefinementPrompt\<close> of \<^verbatim>\<open>refineGraphic\<close>, with the lookups before it.\<close>

definition fullRefinementPrompt :: "string \<Rightarrow> GenerationConfig \<Rightarrow> GenerationContext \<Rightarrow> string" where
  "fullRefinementPrompt refinementPrompt config context =
     (let colorScheme = find (\<lambda>c. bc_id c = colorSchemeId config) (brandColors context);
          style = find (\<lambda>s. vs_id s = visualStyleId config) (visualStyles context);
          colors = (case colorScheme of Some c \<Rightarrow> join '', '' (bc_colors c) | None \<Rightarrow> []);
          styleDesc = (case style of Some s \<Rightarrow> vs_description s | None \<Rightarrow> [])
      in trim (''\<newline>    Edit this image.\<newline>''
               @ ''    Request: '' @ refinementPrompt @ ''.\<newline>''
               @ ''    Maintain the existing style ('' @ styleDesc
               @ '') and color palette ('' @ colors @ '').\<newline>''
               @ ''  ''))"

definition refineGraphic ::
  "api \<Rightarrow> GeneratedImage \<Rightarrow> string \<Rightarrow> GenerationConfig \<Rightarrow> GenerationContext
     \<Rightarrow> console \<times> (js_error + GeneratedImage)" where
  "refineGraphic generateContent currentImage refinementPrompt config context =
     (case (case generateContent
                    \<lparr>req_model = NANO_BANANA_MODEL,
                     req_parts =
                       [\<lparr>part_inlineData =
                           Some \<lparr>blob_data = base64Data currentImage,
                                 blob_mimeType = Some (mimeType currentImage)\<rparr>,
                         part_text = None\<rparr>,
                        \<lparr>part_inlineData = None,
                         part_text =
                           Some (fullRefinementPrompt refinementPrompt config context)\<rparr>],
                     req_aspectRatio = aspectRatio config\<rparr> of
               Inl rejected \<Rightarrow> Inl rejected
             | Inr response \<Rightarrow> extractImageFromResponse response) of
         Inr img \<Rightarrow> ([], Inr img)
       | Inl err \<Rightarrow>
           ([(''Gemini Refinement Error:'', err)],
            Inl (Error ''Failed to refine image. Please try again.'')))"

section \<open>The handlers of the UI (App.tsx, handleGenerate and handleRefine)\<close>

text \<open>
  The three pieces of React state the handlers write, and the calls of their setters.
  A handler is the list of setter calls it makes, in order; \<open>run\<close> applies them.
  \<^verbatim>\<open>config\<close> and \<^verbatim>\<open>context\<close>, which the handlers read from
  the component, are arguments.
\<close>

record AppState =
  generatedImage :: "GeneratedImage option"
  isGenerating :: bool
  error :: "string option"

datatype setter =
    SetGeneratedImage GeneratedImage
  | SetIsGenerating bool
  | SetError "string option"

fun call :: "setter \<Rightarrow> AppState \<Rightarrow> AppState" where
  "call (SetGeneratedImage img) st = st\<lparr>generatedImage := Some img\<rparr>"
| "call (SetIsGenerating b) st = st\<lparr>isGenerating := b\<rparr>"
| "call (SetError e) st = st\<lparr>error := e\<rparr>"

definition run :: "setter list \<Rightarrow> AppState \<Rightarrow> AppState" where
  "run calls st = fold call calls st"

definition handleGenerate :: "api \<Rightarrow> GenerationConfig \<Rightarrow> GenerationContext \<Rightarrow> setter list" where
  "handleGenerate generateContent config context =
     [SetIsGenerating True, SetError None]
     @ (case snd (generateGraphic generateContent config context) of
          Inr result \<Rightarrow> [SetGeneratedImage result]
        | Inl err \<Rightarrow>
            [SetError (Some (if message err \<noteq> [] then message err
                             else ''An unexpected error occurred.''))])
     @ [SetIsGenerating False]"

definition handleRefine ::
  "api \<Rightarrow> AppState \<Rightarrow> string \<Rightarrow> GenerationConfig \<Rightarrow> GenerationContext \<Rightarrow> setter list" where
  "handleRefine generateContent st refinementText config context =
     (case generatedImage st of
        None \<Rightarrow> []
      | Some current \<Rightarrow>
          [SetIsGenerating True, SetError None]
          @ (case snd (refineGraphic generateContent current refinementText config context) of
               Inr result \<Rightarrow> [SetGeneratedImage result]
             | Inl err \<Rightarrow>
                 [SetError (Some (if message err \<noteq> [] then message err
                                  else ''Failed to refine image.''))])
          @ [SetIsGenerating False])"

section \<open>Example inputs\<close>

text \<open>A reply with one candidate and the given parts; a part with only text; a part with only inline data.\<close>

definition replyOfParts :: "Part list \<Rightarrow> Response" where
  "replyOfParts ps = \<lparr>candidates = Some [\<lparr>cand_content = Some \<lparr>content_parts = Some ps\<rparr>\<rparr>]\<rparr>"

definition onlyText :: "string \<Rightarrow> Part" where
  "onlyText t = \<lparr>part_inlineData = None, part_text = Some t\<rparr>"

definition onlyInline :: "string option \<Rightarrow> string option \<Rightarrow> Part" where
  "onlyInline d m = \<lparr>part_inlineData = Some \<lparr>blob_data = d, blob_mimeType = m\<rparr>, part_text = None\<rparr>"

text \<open>Catalogs with one entry each, a configuration whose ids resolve and one whose ids do not.\<close>

definition exampleContext :: GenerationContext where
  "exampleContext =
     \<lparr>brandColors = [\<lparr>bc_name = ''Ocean'', bc_colors = [''#003366'', ''#66CCFF''], bc_id = ''ocean''\<rparr>],
      visualStyles = [\<lparr>vs_name = ''Flat'', vs_description = ''flat vector art'', vs_id = ''flat''\<rparr>],
      graphicTypes = [\<lparr>gt_name = ''Logo'', gt_id = ''logo''\<rparr>]\<rparr>"

definition exampleConfig :: GenerationConfig where
  "exampleConfig =
     \<lparr>prompt = '' a fox '', colorSchemeId = ''ocean'', visualStyleId = ''flat'',
      graphicTypeId = ''logo'', aspectRatio = ''1:1''\<rparr>"

definition staleConfig :: GenerationConfig where
  "staleConfig =
     \<lparr>prompt = ''a fox'', colorSchemeId = ''removed'', visualStyleId = ''removed'',
      graphicTypeId = ''removed'', aspectRatio = ''1:1''\<rparr>"

text \<open>An API that answers every request with a refusal in text; an image and a UI state holding it.\<close>

definition refusingApi :: api where
  "refusingApi request = Inr (replyOfParts [onlyText ''I cannot create this.''])"

definition exampleImage :: GeneratedImage where
  "exampleImage = \<lparr>imageUrl = ''data:image/png;base64,QUJD'', base64Data = Some ''QUJD'',
                    mimeType = ''image/png''\<rparr>"

definition exampleState :: AppState where
  "exampleState = \<lparr>generatedImage = Some exampleImage, isGenerating = False, error = None\<rparr>"

section \<open>Properties of the extractor\<close>

subsection \<open>The two scans\<close>

lemma truthy_iff: "truthy x \<longleftrightarrow> (\<exists>s. x = Some s \<and> s \<noteq> [])"
  by (cases x) auto

lemma not_truthy_iff: "\<not> truthy x \<longleftrightarrow> x = None \<or> x = Some []"
  by (cases x) auto

lemma findImagePart_skip:
  "\<forall>q\<in>set before. part_inlineData q = None \<Longrightarrow>
   findImagePart (before @ rest) = findImagePart rest"
  by (induction before) auto

lemma findImagePart_None:
  "\<forall>q\<in>set ps. part_inlineData q = None \<Longrightarrow> findImagePart ps = None"
  by (induction ps) auto

lemma findImagePart_Some:
  "findImagePart ps = Some p \<Longrightarrow> part_inlineData p \<noteq> None"
  by (induction ps) (auto split: if_splits)

lemma find_truthy_skip:
  "\<forall>q\<in>set before. \<not> truthy (part_text q) \<Longrightarrow>
   find (\<lambda>p. truthy (part_text p)) (before @ rest) = find (\<lambda>p. truthy (part_text p)) rest"
  by (induction before) auto

lemma find_truthy_None:
  "\<forall>q\<in>set ps. \<not> truthy (part_text q) \<Longrightarrow> find (\<lambda>p. truthy (part_text p)) ps = None"
  by (induction ps) auto

text \<open>The extractor on a reply whose first candidate has a list of parts.\<close>

lemma extract_on_parts:
  "candidates response = Some (c # cs) \<Longrightarrow> cand_content c = Some ct \<Longrightarrow>
   content_parts ct = Some ps \<Longrightarrow>
   extractImageFromResponse response =
     (case findImagePart ps of
        None \<Rightarrow>
          (case find (\<lambda>p. truthy (part_text p)) ps of
             Some textPart \<Rightarrow>
               Inl (Error (''Model returned text instead of image: ''
                           @ toString (part_text textPart)))
           | None \<Rightarrow> Inl (Error ''No image data found in response.''))
      | Some imagePart \<Rightarrow>
          (let inlineData = the (part_inlineData imagePart);
               mt = (if truthy (blob_mimeType inlineData)
                     then toString (blob_mimeType inlineData)
                     else ''image/png'')
           in Inr \<lparr>imageUrl = ''data:'' @ mt @ '';base64,'' @ toString (blob_data inlineData),
                   base64Data = blob_data inlineData, mimeType = mt\<rparr>))"
  by (auto simp: extractImageFromResponse_def Let_def dest: findImagePart_Some
           split: option.splits)

subsection \<open>Results\<close>

text \<open>
  C3: when the parts of the first candidate contain an inline-data part, the extractor
  returns the image built from the first such part in list order: the parts before it
  have no inline data, and neither the parts after it (text or inline data) nor the
  other candidates have any influence on the result.
\<close>

theorem first_inline_data_wins:
  assumes "candidates response = Some (c # cs)"
    and "cand_content c = Some ct"
    and "content_parts ct = Some (before @ p # after)"
    and "\<forall>q\<in>set before. part_inlineData q = None"
    and "part_inlineData p = Some b"
  shows "extractImageFromResponse response =
         Inr \<lparr>imageUrl = ''data:''
                  @ (if truthy (blob_mimeType b) then toString (blob_mimeType b) else ''image/png'')
                  @ '';base64,'' @ toString (blob_data b),
               base64Data = blob_data b,
               mimeType = (if truthy (blob_mimeType b) then toString (blob_mimeType b)
                           else ''image/png'')\<rparr>"
  using assms by (simp add: extract_on_parts findImagePart_skip Let_def)

text \<open>An inline-data part first, a text part second and another inline-data part third.\<close>

theorem first_inline_data_wins_witness:
  "extractImageFromResponse
     (replyOfParts [onlyInline (Some ''QUJD'') (Some ''image/jpeg''), onlyText ''Here it is.'',
                    onlyInline (Some ''REVG'') (Some ''image/webp'')])
   = Inr \<lparr>imageUrl = ''data:image/jpeg;base64,QUJD'', base64Data = Some ''QUJD'',
          mimeType = ''image/jpeg''\<rparr>"
  using first_inline_data_wins [where before = "[]"
      and p = "onlyInline (Some ''QUJD'') (Some ''image/jpeg'')"
      and b = "\<lparr>blob_data = Some ''QUJD'', blob_mimeType = Some ''image/jpeg''\<rparr>"
      and after = "[onlyText ''Here it is.'', onlyInline (Some ''REVG'') (Some ''image/webp'')]"
      and ct = "\<lparr>content_parts = Some [onlyInline (Some ''QUJD'') (Some ''image/jpeg''),
                        onlyText ''Here it is.'', onlyInline (Some ''REVG'') (Some ''image/webp'')]\<rparr>"
      and c = "\<lparr>cand_content = Some \<lparr>content_parts = Some [onlyInline (Some ''QUJD'') (Some ''image/jpeg''),
                        onlyText ''Here it is.'', onlyInline (Some ''REVG'') (Some ''image/webp'')]\<rparr>\<rparr>"
      and cs = "[]"
      and response = "replyOfParts [onlyInline (Some ''QUJD'') (Some ''image/jpeg''),
                        onlyText ''Here it is.'', onlyInline (Some ''REVG'') (Some ''image/webp'')]"]
  by (simp add: replyOfParts_def onlyInline_def onlyText_def)

text \<open>
  C5: every result the extractor returns satisfies
  \<^verbatim>\<open>imageUrl == "data:" + mimeType + ";base64," + base64Data\<close>, over the
  other two fields of the same result (an absent \<^verbatim>\<open>base64Data\<close> reads
  \<^verbatim>\<open>undefined\<close>, as \<^verbatim>\<open>+\<close> and the template literal both
  render it).
\<close>

theorem extract_imageUrl_derived:
  "extractImageFromResponse response = Inr img \<Longrightarrow>
   imageUrl img = ''data:'' @ mimeType img @ '';base64,'' @ toString (base64Data img)"
  by (auto simp: extractImageFromResponse_def Let_def
           split: option.splits list.splits)

theorem extract_imageUrl_derived_witness:
  "extractImageFromResponse (replyOfParts [onlyInline (Some ''QUJD'') None])
     = Inr \<lparr>imageUrl = ''data:image/png;base64,QUJD'', base64Data = Some ''QUJD'',
            mimeType = ''image/png''\<rparr>
   \<and> ''data:image/png;base64,QUJD''
       = ''data:'' @ ''image/png'' @ '';base64,'' @ toString (Some ''QUJD'')"
  using extract_imageUrl_derived [of "replyOfParts [onlyInline (Some ''QUJD'') None]"
      "\<lparr>imageUrl = ''data:image/png;base64,QUJD'', base64Data = Some ''QUJD'',
        mimeType = ''image/png''\<rparr>"]
  by (simp add: extractImageFromResponse_def replyOfParts_def onlyInline_def)

text \<open>
  C2, as the code has it.  The extractor fails with the error for no candidates exactly
  when the candidate list is absent or empty.  When the first candidate's parts carry no
  inline data, it fails with the error that quotes a text: the text of the first part
  whose text is present and not the empty string; and when every part's text is absent
  or the empty string, it fails with the error for no image data.
\<close>

theorem extract_failure_classification:
  "(extractImageFromResponse response = Inl (Error ''No candidates returned from API.'')
      \<longleftrightarrow> candidates response = None \<or> candidates response = Some [])
   \<and> (candidates response = Some (c # cs) \<longrightarrow> cand_content c = Some ct \<longrightarrow>
        content_parts ct = Some (before @ p # after) \<longrightarrow>
        (\<forall>q\<in>set (before @ p # after). part_inlineData q = None) \<longrightarrow>
        (\<forall>q\<in>set before. part_text q = None \<or> part_text q = Some []) \<longrightarrow>
        part_text p = Some t \<longrightarrow> t \<noteq> [] \<longrightarrow>
        extractImageFromResponse response
          = Inl (Error (''Model returned text instead of image: '' @ t)))
   \<and> (candidates response = Some (c # cs) \<longrightarrow> cand_content c = Some ct \<longrightarrow>
        content_parts ct = Some ps \<longrightarrow>
        (\<forall>q\<in>set ps. part_inlineData q = None) \<longrightarrow>
        (\<forall>q\<in>set ps. part_text q = None \<or> part_text q = Some []) \<longrightarrow>
        extractImageFromResponse response = Inl (Error ''No image data found in response.''))"
proof (intro conjI impI)
  show "(extractImageFromResponse response = Inl (Error ''No candidates returned from API.''))
      = (candidates response = None \<or> candidates response = Some [])"
    by (auto simp: extractImageFromResponse_def Let_def split: option.splits list.splits)
next
  assume "candidates response = Some (c # cs)" "cand_content c = Some ct"
    "content_parts ct = Some (before @ p # after)"
    "\<forall>q\<in>set (before @ p # after). part_inlineData q = None"
    "\<forall>q\<in>set before. part_text q = None \<or> part_text q = Some []"
    "part_text p = Some t" "t \<noteq> []"
  then show "extractImageFromResponse response
                = Inl (Error (''Model returned text instead of image: '' @ t))"
    by (simp add: extract_on_parts findImagePart_None find_truthy_skip not_truthy_iff)
next
  assume "candidates response = Some (c # cs)" "cand_content c = Some ct"
    "content_parts ct = Some ps" "\<forall>q\<in>set ps. part_inlineData q = None"
    "\<forall>q\<in>set ps. part_text q = None \<or> part_text q = Some []"
  then show "extractImageFromResponse response = Inl (Error ''No image data found in response.'')"
    by (simp add: extract_on_parts findImagePart_None find_truthy_None not_truthy_iff)
qed

text \<open>
  No candidates; a part with the empty text before the part with the refusal; no parts.
\<close>

theorem extract_failure_classification_witness:
  "extractImageFromResponse \<lparr>candidates = Some []\<rparr>
     = Inl (Error ''No candidates returned from API.'')
   \<and> extractImageFromResponse (replyOfParts [onlyText [], onlyText ''I cannot create this.''])
     = Inl (Error ''Model returned text instead of image: I cannot create this.'')
   \<and> extractImageFromResponse (replyOfParts [])
     = Inl (Error ''No image data found in response.'')"
proof -
  have "extractImageFromResponse \<lparr>candidates = Some []\<rparr>
     = Inl (Error ''No candidates returned from API.'')"
    using extract_failure_classification [where response = "\<lparr>candidates = Some []\<rparr>"]
    by simp
  moreover have "extractImageFromResponse (replyOfParts [onlyText [], onlyText ''I cannot create this.''])
     = Inl (Error ''Model returned text instead of image: I cannot create this.'')"
    using extract_failure_classification [where
        response = "replyOfParts [onlyText [], onlyText ''I cannot create this.'']"
        and c = "\<lparr>cand_content = Some \<lparr>content_parts =
                   Some [onlyText [], onlyText ''I cannot create this.'']\<rparr>\<rparr>"
        and cs = "[]"
        and ct = "\<lparr>content_parts = Some [onlyText [], onlyText ''I cannot create this.'']\<rparr>"
        and before = "[onlyText []]" and p = "onlyText ''I cannot create this.''"
        and after = "[]" and t = "''I cannot create this.''"]
    by (simp add: replyOfParts_def onlyText_def)
  moreover have "extractImageFromResponse (replyOfParts [])
     = Inl (Error ''No image data found in response.'')"
    using extract_failure_classification [where response = "replyOfParts []"
        and c = "\<lparr>cand_content = Some \<lparr>content_parts = Some []\<rparr>\<rparr>" and cs = "[]"
        and ct = "\<lparr>content_parts = Some []\<rparr>" and ps = "[]"]
    by (simp add: replyOfParts_def)
  ultimately show ?thesis by blast
qed

text \<open>
  C2 as stated fails on a reply whose only part has a text that is present and empty:
  the part is skipped by the scan for a text, and the error is the one for no image
  data, not the one that carries the part's text.
\<close>

theorem text_present_but_empty_counterexample:
  "part_text (onlyText []) = Some []
   \<and> extractImageFromResponse (replyOfParts [onlyText []])
       = Inl (Error ''No image data found in response.'')
   \<and> extractImageFromResponse (replyOfParts [onlyText []])
       \<noteq> Inl (Error (''Model returned text instead of image: '' @ []))"
  by (simp add: extractImageFromResponse_def replyOfParts_def onlyText_def)

text \<open>
  C4, as the code has it.  For the winning inline-data part: when it declares no MIME
  type, the result's \<^verbatim>\<open>mimeType\<close> is \<^verbatim>\<open>image/png\<close> and its
  \<^verbatim>\<open>imageUrl\<close> starts with \<^verbatim>\<open>data:image/png;base64,\<close>; when it
  declares a MIME type other than the empty string, the declared value is used.
\<close>

theorem mimeType_default_or_declared:
  assumes "candidates response = Some (c # cs)"
    and "cand_content c = Some ct"
    and "content_parts ct = Some (before @ p # after)"
    and "\<forall>q\<in>set before. part_inlineData q = None"
    and "part_inlineData p = Some b"
  shows "\<exists>img. extractImageFromResponse response = Inr img
           \<and> (blob_mimeType b = None \<longrightarrow>
                 mimeType img = ''image/png''
                 \<and> prefix ''data:image/png;base64,'' (imageUrl img))
           \<and> (\<forall>m. blob_mimeType b = Some m \<longrightarrow> m \<noteq> [] \<longrightarrow>
                 mimeType img = m \<and> prefix (''data:'' @ m @ '';base64,'') (imageUrl img))"
  using assms by (auto simp: extract_on_parts findImagePart_skip Let_def)

text \<open>A part that declares no MIME type, and a part that declares one.\<close>

theorem mimeType_default_or_declared_witness:
  "(\<exists>img. extractImageFromResponse (replyOfParts [onlyInline (Some ''QUJD'') None]) = Inr img
          \<and> mimeType img = ''image/png''
          \<and> prefix ''data:image/png;base64,'' (imageUrl img))
   \<and> (\<exists>img. extractImageFromResponse
                (replyOfParts [onlyInline (Some ''QUJD'') (Some ''image/jpeg'')]) = Inr img
          \<and> mimeType img = ''image/jpeg''
          \<and> prefix ''data:image/jpeg;base64,'' (imageUrl img))"
proof -
  have "\<exists>img. extractImageFromResponse (replyOfParts [onlyInline (Some ''QUJD'') None]) = Inr img
          \<and> mimeType img = ''image/png''
          \<and> prefix ''data:image/png;base64,'' (imageUrl img)"
    using mimeType_default_or_declared [where
        response = "replyOfParts [onlyInline (Some ''QUJD'') None]"
        and c = "\<lparr>cand_content = Some \<lparr>content_parts = Some [onlyInline (Some ''QUJD'') None]\<rparr>\<rparr>"
        and cs = "[]" and ct = "\<lparr>content_parts = Some [onlyInline (Some ''QUJD'') None]\<rparr>"
        and before = "[]" and p = "onlyInline (Some ''QUJD'') None" and after = "[]"
        and b = "\<lparr>blob_data = Some ''QUJD'', blob_mimeType = None\<rparr>"]
    by (simp add: replyOfParts_def onlyInline_def)
  moreover have "\<exists>img. extractImageFromResponse
                (replyOfParts [onlyInline (Some ''QUJD'') (Some ''image/jpeg'')]) = Inr img
          \<and> mimeType img = ''image/jpeg''
          \<and> prefix ''data:image/jpeg;base64,'' (imageUrl img)"
    using mimeType_default_or_declared [where
        response = "replyOfParts [onlyInline (Some ''QUJD'') (Some ''image/jpeg'')]"
        and c = "\<lparr>cand_content = Some \<lparr>content_parts =
                   Some [onlyInline (Some ''QUJD'') (Some ''image/jpeg'')]\<rparr>\<rparr>"
        and cs = "[]"
        and ct = "\<lparr>content_parts = Some [onlyInline (Some ''QUJD'') (Some ''image/jpeg'')]\<rparr>"
        and before = "[]" and p = "onlyInline (Some ''QUJD'') (Some ''image/jpeg'')"
        and after = "[]"
        and b = "\<lparr>blob_data = Some ''QUJD'', blob_mimeType = Some ''image/jpeg''\<rparr>"]
    by (simp add: replyOfParts_def onlyInline_def)
  ultimately show ?thesis by blast
qed

text \<open>
  C4 as stated fails on a part that declares the empty string as its MIME type: the
  declared value is not used, \<^verbatim>\<open>image/png\<close> is.
\<close>

theorem declared_empty_mimeType_counterexample:
  "blob_mimeType \<lparr>blob_data = Some ''QUJD'', blob_mimeType = Some []\<rparr> = Some []
   \<and> extractImageFromResponse (replyOfParts [onlyInline (Some ''QUJD'') (Some [])])
       = Inr \<lparr>imageUrl = ''data:image/png;base64,QUJD'', base64Data = Some ''QUJD'',
              mimeType = ''image/png''\<rparr>
   \<and> ''image/png'' \<noteq> ([] :: string)"
  by (simp add: extractImageFromResponse_def replyOfParts_def onlyInline_def)

text \<open>
  C9: with a first candidate that lacks its content, or whose content lacks its parts,
  the extractor raises a \<^verbatim>\<open>TypeError\<close> of the runtime, which is none of its
  three errors.  On every other reply (no candidates, or a first candidate with a list
  of parts) it returns a result or fails with one of its three errors.
\<close>

theorem extract_total_with_parts:
  "(candidates response = Some (c # cs) \<longrightarrow>
      (cand_content c = None \<or> (\<exists>ct. cand_content c = Some ct \<and> content_parts ct = None)) \<longrightarrow>
      (\<exists>m. extractImageFromResponse response = Inl (TypeError m)))
   \<and> (candidates response = None \<or> candidates response = Some []
        \<or> (\<exists>c cs ct ps. candidates response = Some (c # cs) \<and> cand_content c = Some ct
                          \<and> content_parts ct = Some ps) \<longrightarrow>
      (\<exists>img. extractImageFromResponse response = Inr img)
      \<or> extractImageFromResponse response = Inl (Error ''No candidates returned from API.'')
      \<or> (\<exists>t. extractImageFromResponse response
               = Inl (Error (''Model returned text instead of image: '' @ t)))
      \<or> extractImageFromResponse response = Inl (Error ''No image data found in response.''))"
  by (auto simp: extractImageFromResponse_def Let_def dest: findImagePart_Some
           split: option.splits list.splits)

text \<open>A candidate without content, a content without parts, and a candidate with an empty list of parts.\<close>

theorem extract_total_with_parts_witness:
  "(\<exists>m. extractImageFromResponse \<lparr>candidates = Some [\<lparr>cand_content = None\<rparr>]\<rparr>
          = Inl (TypeError m))
   \<and> (\<exists>m. extractImageFromResponse
            \<lparr>candidates = Some [\<lparr>cand_content = Some \<lparr>content_parts = None\<rparr>\<rparr>]\<rparr>
          = Inl (TypeError m))
   \<and> extractImageFromResponse (replyOfParts [])
       = Inl (Error ''No image data found in response.'')"
proof -
  have "\<exists>m. extractImageFromResponse \<lparr>candidates = Some [\<lparr>cand_content = None\<rparr>]\<rparr>
          = Inl (TypeError m)"
    using extract_total_with_parts [where
        response = "\<lparr>candidates = Some [\<lparr>cand_content = None\<rparr>]\<rparr>"
        and c = "\<lparr>cand_content = None\<rparr>" and cs = "[]"]
    by simp
  moreover have "\<exists>m. extractImageFromResponse
            \<lparr>candidates = Some [\<lparr>cand_content = Some \<lparr>content_parts = None\<rparr>\<rparr>]\<rparr>
          = Inl (TypeError m)"
    using extract_total_with_parts [where
        response = "\<lparr>candidates = Some [\<lparr>cand_content = Some \<lparr>content_parts = None\<rparr>\<rparr>]\<rparr>"
        and c = "\<lparr>cand_content = Some \<lparr>content_parts = None\<rparr>\<rparr>" and cs = "[]"]
    by simp
  moreover have "extractImageFromResponse (replyOfParts [])
       = Inl (Error ''No image data found in response.'')"
    using extract_total_with_parts [where response = "replyOfParts []"]
    by (simp add: replyOfParts_def extractImageFromResponse_def)
  ultimately show ?thesis by blast
qed

text \<open>
  C10: when the winning inline-data part declares the empty string as its MIME type,
  the result's \<^verbatim>\<open>mimeType\<close> is \<^verbatim>\<open>image/png\<close>; and the
  \<^verbatim>\<open>mimeType\<close> of every result the extractor returns is a non-empty string.
\<close>

theorem empty_mimeType_defaults:
  "(candidates response = Some (c # cs) \<longrightarrow> cand_content c = Some ct \<longrightarrow>
      content_parts ct = Some (before @ p # after) \<longrightarrow>
      (\<forall>q\<in>set before. part_inlineData q = None) \<longrightarrow>
      part_inlineData p = Some b \<longrightarrow> blob_mimeType b = Some [] \<longrightarrow>
      (\<exists>img. extractImageFromResponse response = Inr img \<and> mimeType img = ''image/png''))
   \<and> (\<forall>img. extractImageFromResponse response = Inr img \<longrightarrow> mimeType img \<noteq> [])"
proof (intro conjI impI allI)
  assume "candidates response = Some (c # cs)" "cand_content c = Some ct"
    "content_parts ct = Some (before @ p # after)" "\<forall>q\<in>set before. part_inlineData q = None"
    "part_inlineData p = Some b" "blob_mimeType b = Some []"
  then show "\<exists>img. extractImageFromResponse response = Inr img \<and> mimeType img = ''image/png''"
    by (simp add: extract_on_parts findImagePart_skip Let_def)
next
  fix img
  assume "extractImageFromResponse response = Inr img"
  then show "mimeType img \<noteq> []"
    by (auto simp: extractImageFromResponse_def Let_def truthy_iff
             split: option.splits list.splits if_splits)
qed

theorem empty_mimeType_defaults_witness:
  "extractImageFromResponse (replyOfParts [onlyInline (Some ''REVG'') (Some [])])
     = Inr \<lparr>imageUrl = ''data:image/png;base64,REVG'', base64Data = Some ''REVG'',
            mimeType = ''image/png''\<rparr>
   \<and> mimeType \<lparr>imageUrl = ''data:image/png;base64,REVG'', base64Data = Some ''REVG'',
               mimeType = ''image/png''\<rparr> \<noteq> []"
  using empty_mimeType_defaults [where
      response = "replyOfParts [onlyInline (Some ''REVG'') (Some [])]"
      and c = "\<lparr>cand_content = Some \<lparr>content_parts = Some [onlyInline (Some ''REVG'') (Some [])]\<rparr>\<rparr>"
      and cs = "[]" and ct = "\<lparr>content_parts = Some [onlyInline (Some ''REVG'') (Some [])]\<rparr>"
      and before = "[]" and p = "onlyInline (Some ''REVG'') (Some [])" and after = "[]"
      and b = "\<lparr>blob_data = Some ''REVG'', blob_mimeType = Some []\<rparr>"]
  by (simp add: replyOfParts_def onlyInline_def extractImageFromResponse_def)

section \<open>Properties of the prompts\<close>

lemma dropWhile_framed:
  "\<forall>c\<in>set pre. P c \<Longrightarrow> \<not> P a \<Longrightarrow> dropWhile P (pre @ a # rest) = a # rest"
  by (induction pre) auto

text \<open>Trimming removes a frame of white space around a text that starts and ends with other characters.\<close>

lemma trim_framed:
  assumes pre: "\<forall>c\<in>set pre. isWhiteSpace c" and post: "\<forall>c\<in>set post. isWhiteSpace c"
    and a: "\<not> isWhiteSpace a" and b: "\<not> isWhiteSpace b"
  shows "trim (pre @ a # mid @ b # post) = a # mid @ [b]"
proof -
  have "dropWhile isWhiteSpace (pre @ a # mid @ b # post) = a # mid @ b # post"
    using pre a by (rule dropWhile_framed)
  moreover have "rev (a # mid @ b # post) = rev post @ b # (rev mid @ [a])"
    by simp
  moreover have "dropWhile isWhiteSpace (rev post @ b # (rev mid @ [a])) = b # (rev mid @ [a])"
    using post b by (intro dropWhile_framed) auto
  ultimately show ?thesis
    by (simp add: trim_def)
qed

lemma trim_generation_template:
  "trim (''\<newline>    Create a '' @ typeName @ ''.\<newline>''
               @ ''    Visual Style: '' @ styleDesc @ ''.\<newline>''
               @ ''    Color Palette: Strictly use these colors: '' @ colors @ ''.\<newline>''
               @ ''    \<newline>''
               @ ''    Content Request: '' @ request @ ''\<newline>''
               @ ''    \<newline>''
               @ ''    Ensure the output is high quality and adheres to the style constraints.\<newline>''
               @ ''  '')
   = ''Create a '' @ typeName @ ''.\<newline>''
               @ ''    Visual Style: '' @ styleDesc @ ''.\<newline>''
               @ ''    Color Palette: Strictly use these colors: '' @ colors @ ''.\<newline>''
               @ ''    \<newline>''
               @ ''    Content Request: '' @ request @ ''\<newline>''
               @ ''    \<newline>''
               @ ''    Ensure the output is high quality and adheres to the style constraints.''"
  using trim_framed [of "''\<newline>    ''" "''\<newline>  ''" "CHR ''C''" "CHR ''.''"
      "''reate a '' @ typeName @ ''.\<newline>''
               @ ''    Visual Style: '' @ styleDesc @ ''.\<newline>''
               @ ''    Color Palette: Strictly use these colors: '' @ colors @ ''.\<newline>''
               @ ''    \<newline>''
               @ ''    Content Request: '' @ request @ ''\<newline>''
               @ ''    \<newline>''
               @ ''    Ensure the output is high quality and adheres to the style constraints''"]
  by (simp add: isWhiteSpace_def)

lemma trim_refinement_template:
  "trim (''\<newline>    Edit this image.\<newline>''
               @ ''    Request: '' @ refinementPrompt @ ''.\<newline>''
               @ ''    Maintain the existing style ('' @ styleDesc
               @ '') and color palette ('' @ colors @ '').\<newline>''
               @ ''  '')
   = ''Edit this image.\<newline>''
               @ ''    Request: '' @ refinementPrompt @ ''.\<newline>''
               @ ''    Maintain the existing style ('' @ styleDesc
               @ '') and color palette ('' @ colors @ '').''"
  using trim_framed [of "''\<newline>    ''" "''\<newline>  ''" "CHR ''E''" "CHR ''.''"
      "''dit this image.\<newline>''
               @ ''    Request: '' @ refinementPrompt @ ''.\<newline>''
               @ ''    Maintain the existing style ('' @ styleDesc
               @ '') and color palette ('' @ colors @ '')''"]
  by (simp add: isWhiteSpace_def)

text \<open>\<^verbatim>\<open>join\<close> written without recursion: the first element, then each other element after the separator.\<close>

lemma join_concat:
  "join sep (x # xs) = x @ concat (map (\<lambda>y. sep @ y) xs)"
  by (induction xs arbitrary: x) simp_all

text \<open>
  C6: when the three ids resolve, the generation prompt contains the name of the
  graphic type, the description of the style, the colors joined by a comma and a space
  (the first color, then each other color after \<^verbatim>\<open>, \<close>; nothing for no
  colors), and the user's prompt, each as a contiguous substring; and the prompt has no
  white space at either end: it is not empty, its first character is \<^verbatim>\<open>C\<close>
  and its last is the full stop, neither is white space, and trimming it again changes
  nothing.
\<close>

theorem prompt_contains_resolved_fields:
  assumes "find (\<lambda>t. gt_id t = graphicTypeId config) (graphicTypes ctx) = Some gtype"
    and "find (\<lambda>s. vs_id s = visualStyleId config) (visualStyles ctx) = Some style"
    and "find (\<lambda>c. bc_id c = colorSchemeId config) (brandColors ctx) = Some palette"
  shows "sublist (gt_name gtype) (constructFullPrompt config ctx)
       \<and> sublist (vs_description style) (constructFullPrompt config ctx)
       \<and> sublist (case bc_colors palette of
                    [] \<Rightarrow> []
                  | x # xs \<Rightarrow> x @ concat (map (\<lambda>y. '', '' @ y) xs))
           (constructFullPrompt config ctx)
       \<and> sublist (prompt config) (constructFullPrompt config ctx)
       \<and> constructFullPrompt config ctx \<noteq> []
       \<and> hd (constructFullPrompt config ctx) = CHR ''C''
       \<and> last (constructFullPrompt config ctx) = CHR ''.''
       \<and> \<not> isWhiteSpace (hd (constructFullPrompt config ctx))
       \<and> \<not> isWhiteSpace (last (constructFullPrompt config ctx))
       \<and> trim (constructFullPrompt config ctx) = constructFullPrompt config ctx"
proof -
  let ?P = "constructFullPrompt config ctx"
  let ?A = "''Create a ''"
  let ?B = "''.\<newline>    Visual Style: ''"
  let ?C = "''.\<newline>    Color Palette: Strictly use these colors: ''"
  let ?D = "''.\<newline>    \<newline>    Content Request: ''"
  let ?E = "''\<newline>    \<newline>    Ensure the output is high quality and adheres to the style constraints.''"
  let ?T = "gt_name gtype" and ?S = "vs_description style"
  let ?K = "join '', '' (bc_colors palette)" and ?R = "prompt config"
  have P: "?P = ?A @ ?T @ ?B @ ?S @ ?C @ ?K @ ?D @ ?R @ ?E"
    unfolding constructFullPrompt_def Let_def trim_generation_template
    using assms by simp
  have "?P = ?A @ ?T @ (?B @ ?S @ ?C @ ?K @ ?D @ ?R @ ?E)"
    unfolding P by simp
  then have 1: "sublist ?T ?P"
    unfolding sublist_def by blast
  have "?P = (?A @ ?T @ ?B) @ ?S @ (?C @ ?K @ ?D @ ?R @ ?E)"
    unfolding P by simp
  then have 2: "sublist ?S ?P"
    unfolding sublist_def by blast
  have "?P = (?A @ ?T @ ?B @ ?S @ ?C) @ ?K @ (?D @ ?R @ ?E)"
    unfolding P by simp
  then have "sublist ?K ?P"
    unfolding sublist_def by blast
  moreover have "?K = (case bc_colors palette of
                    [] \<Rightarrow> []
                  | x # xs \<Rightarrow> x @ concat (map (\<lambda>y. '', '' @ y) xs))"
    by (cases "bc_colors palette") (simp_all only: join_concat join.simps list.case)
  ultimately have 3: "sublist (case bc_colors palette of
                    [] \<Rightarrow> []
                  | x # xs \<Rightarrow> x @ concat (map (\<lambda>y. '', '' @ y) xs)) ?P"
    by simp
  have "?P = (?A @ ?T @ ?B @ ?S @ ?C @ ?K @ ?D) @ ?R @ ?E"
    unfolding P by simp
  then have 4: "sublist ?R ?P"
    unfolding sublist_def by blast
  have 5: "?P \<noteq> []" "hd ?P = CHR ''C''" "last ?P = CHR ''.''"
    unfolding P by simp_all
  have 6: "trim ?P = ?P"
    unfolding P
    using trim_framed [of "[]" "[]" "CHR ''C''" "CHR ''.''"
        "''reate a '' @ ?T @ ?B @ ?S @ ?C @ ?K @ ?D @ ?R
          @ ''\<newline>    \<newline>    Ensure the output is high quality and adheres to the style constraints''"]
    by (simp add: isWhiteSpace_def)
  from 1 2 3 4 5 6 show ?thesis
    by (simp add: isWhiteSpace_def)
qed

text \<open>The prompt for a configuration whose ids resolve; the user's prompt keeps its own spaces.\<close>

theorem prompt_contains_resolved_fields_witness:
  "constructFullPrompt exampleConfig exampleContext
     = ''Create a Logo.\<newline>    Visual Style: flat vector art.\<newline>    Color Palette: Strictly use these colors: #003366, #66CCFF.\<newline>    \<newline>    Content Request:  a fox \<newline>    \<newline>    Ensure the output is high quality and adheres to the style constraints.''
   \<and> sublist ''Logo'' (constructFullPrompt exampleConfig exampleContext)
   \<and> sublist ''flat vector art'' (constructFullPrompt exampleConfig exampleContext)
   \<and> sublist ''#003366, #66CCFF'' (constructFullPrompt exampleConfig exampleContext)
   \<and> sublist '' a fox '' (constructFullPrompt exampleConfig exampleContext)"
proof -
  have "constructFullPrompt exampleConfig exampleContext
     = ''Create a Logo.\<newline>    Visual Style: flat vector art.\<newline>    Color Palette: Strictly use these colors: #003366, #66CCFF.\<newline>    \<newline>    Content Request:  a fox \<newline>    \<newline>    Ensure the output is high quality and adheres to the style constraints.''"
    unfolding constructFullPrompt_def Let_def trim_generation_template
    by (simp add: exampleConfig_def exampleContext_def)
  moreover have "sublist ''Logo'' (constructFullPrompt exampleConfig exampleContext)
   \<and> sublist ''flat vector art'' (constructFullPrompt exampleConfig exampleContext)
   \<and> sublist ''#003366, #66CCFF'' (constructFullPrompt exampleConfig exampleContext)
   \<and> sublist '' a fox '' (constructFullPrompt exampleConfig exampleContext)"
    using prompt_contains_resolved_fields [of exampleConfig exampleContext
        "\<lparr>gt_name = ''Logo'', gt_id = ''logo''\<rparr>"
        "\<lparr>vs_name = ''Flat'', vs_description = ''flat vector art'', vs_id = ''flat''\<rparr>"
        "\<lparr>bc_name = ''Ocean'', bc_colors = [''#003366'', ''#66CCFF''], bc_id = ''ocean''\<rparr>"]
    by (simp add: exampleConfig_def exampleContext_def)
  ultimately show ?thesis by blast
qed

text \<open>
  C7: the generation prompt is the template with, for each of the three ids, the value
  of the catalog entry it resolves to, or else the fallback \<^verbatim>\<open>image\<close>,
  \<^verbatim>\<open>clean style\<close> or \<^verbatim>\<open>standard colors\<close>; the refinement prompt is
  its template with the resolved style description and colors, or else the empty
  string for either.  Both builders are total functions into strings: a missing id
  raises nothing.
\<close>

theorem missing_id_fallbacks:
  "constructFullPrompt config ctx
     = ''Create a ''
       @ (case find (\<lambda>t. gt_id t = graphicTypeId config) (graphicTypes ctx) of
            Some t \<Rightarrow> gt_name t | None \<Rightarrow> ''image'')
       @ ''.\<newline>    Visual Style: ''
       @ (case find (\<lambda>s. vs_id s = visualStyleId config) (visualStyles ctx) of
            Some s \<Rightarrow> vs_description s | None \<Rightarrow> ''clean style'')
       @ ''.\<newline>    Color Palette: Strictly use these colors: ''
       @ (case find (\<lambda>c. bc_id c = colorSchemeId config) (brandColors ctx) of
            Some c \<Rightarrow> join '', '' (bc_colors c) | None \<Rightarrow> ''standard colors'')
       @ ''.\<newline>    \<newline>    Content Request: '' @ prompt config
       @ ''\<newline>    \<newline>    Ensure the output is high quality and adheres to the style constraints.''
   \<and> fullRefinementPrompt refinementPrompt config ctx
     = ''Edit this image.\<newline>    Request: '' @ refinementPrompt
       @ ''.\<newline>    Maintain the existing style (''
       @ (case find (\<lambda>s. vs_id s = visualStyleId config) (visualStyles ctx) of
            Some s \<Rightarrow> vs_description s | None \<Rightarrow> [])
       @ '') and color palette (''
       @ (case find (\<lambda>c. bc_id c = colorSchemeId config) (brandColors ctx) of
            Some c \<Rightarrow> join '', '' (bc_colors c) | None \<Rightarrow> [])
       @ '').''"
  unfolding constructFullPrompt_def fullRefinementPrompt_def Let_def
    trim_generation_template trim_refinement_template
  by simp

text \<open>Both prompts for a configuration none of whose ids is in the catalogs.\<close>

theorem missing_id_fallbacks_witness:
  "constructFullPrompt staleConfig exampleContext
     = ''Create a image.\<newline>    Visual Style: clean style.\<newline>    Color Palette: Strictly use these colors: standard colors.\<newline>    \<newline>    Content Request: a fox\<newline>    \<newline>    Ensure the output is high quality and adheres to the style constraints.''
   \<and> fullRefinementPrompt ''make it blue'' staleConfig exampleContext
     = ''Edit this image.\<newline>    Request: make it blue.\<newline>    Maintain the existing style () and color palette ().''"
  using missing_id_fallbacks [of staleConfig exampleContext "''make it blue''"]
  by (simp add: staleConfig_def exampleContext_def)

section \<open>Properties of the service and of the handlers\<close>

text \<open>
  C1, as the code has it.  When the API's reply has a first candidate with no inline
  data and a part with a text, \<^verbatim>\<open>generateGraphic\<close> and
  \<^verbatim>\<open>refineGraphic\<close> fail with their fixed messages.  When that part is the
  first whose text is not empty, the extractor's error, which carries the text, is what
  they write to the console.
\<close>

theorem refusal_wrapped_and_logged:
  assumes "\<forall>request. generateContent request = Inr response"
    and "candidates response = Some (c # cs)"
    and "cand_content c = Some ct"
    and "content_parts ct = Some (before @ p # after)"
    and "\<forall>q\<in>set (before @ p # after). part_inlineData q = None"
    and "part_text p = Some t"
  shows "snd (generateGraphic generateContent config ctx)
           = Inl (Error ''Failed to generate image. Please try again.'')
       \<and> snd (refineGraphic generateContent currentImage refinementPrompt config ctx)
           = Inl (Error ''Failed to refine image. Please try again.'')
       \<and> ((\<forall>q\<in>set before. part_text q = None \<or> part_text q = Some []) \<longrightarrow> t \<noteq> [] \<longrightarrow>
            fst (generateGraphic generateContent config ctx)
              = [(''Gemini Generation Error:'',
                  Error (''Model returned text instead of image: '' @ t))]
            \<and> fst (refineGraphic generateContent currentImage refinementPrompt config ctx)
              = [(''Gemini Refinement Error:'',
                  Error (''Model returned text instead of image: '' @ t))])"
proof (intro conjI impI)
  have none: "findImagePart (before @ p # after) = None"
    using assms(5) by (rule findImagePart_None)
  then obtain e where e: "extractImageFromResponse response = Inl e"
    using assms(2-4)
    by (cases "find (\<lambda>p. truthy (part_text p)) (before @ p # after)")
       (simp_all add: extract_on_parts)
  show "snd (generateGraphic generateContent config ctx)
           = Inl (Error ''Failed to generate image. Please try again.'')"
    using assms(1) e by (simp add: generateGraphic_def)
  show "snd (refineGraphic generateContent currentImage refinementPrompt config ctx)
           = Inl (Error ''Failed to refine image. Please try again.'')"
    using assms(1) e by (simp add: refineGraphic_def)
  assume "\<forall>q\<in>set before. part_text q = None \<or> part_text q = Some []" "t \<noteq> []"
  then have "find (\<lambda>p. truthy (part_text p)) (before @ p # after) = Some p"
    using assms(6) by (subst find_truthy_skip) (auto simp: truthy_iff)
  with none have r: "extractImageFromResponse response
      = Inl (Error (''Model returned text instead of image: '' @ t))"
    using assms(2-4,6) by (simp add: extract_on_parts)
  show "fst (generateGraphic generateContent config ctx)
              = [(''Gemini Generation Error:'',
                  Error (''Model returned text instead of image: '' @ t))]"
    using assms(1) r by (simp add: generateGraphic_def)
  show "fst (refineGraphic generateContent currentImage refinementPrompt config ctx)
              = [(''Gemini Refinement Error:'',
                  Error (''Model returned text instead of image: '' @ t))]"
    using assms(1) r by (simp add: refineGraphic_def)
qed

theorem refusal_wrapped_and_logged_witness:
  "generateGraphic refusingApi exampleConfig exampleContext
     = ([(''Gemini Generation Error:'',
          Error ''Model returned text instead of image: I cannot create this.'')],
        Inl (Error ''Failed to generate image. Please try again.''))
   \<and> refineGraphic refusingApi exampleImage ''make it blue'' exampleConfig exampleContext
     = ([(''Gemini Refinement Error:'',
          Error ''Model returned text instead of image: I cannot create this.'')],
        Inl (Error ''Failed to refine image. Please try again.''))"
  using refusal_wrapped_and_logged [where generateContent = refusingApi
      and response = "replyOfParts [onlyText ''I cannot create this.'']"
      and c = "\<lparr>cand_content = Some \<lparr>content_parts = Some [onlyText ''I cannot create this.'']\<rparr>\<rparr>"
      and cs = "[]"
      and ct = "\<lparr>content_parts = Some [onlyText ''I cannot create this.'']\<rparr>"
      and before = "[]" and p = "onlyText ''I cannot create this.''" and after = "[]"
      and t = "''I cannot create this.''"
      and config = exampleConfig and ctx = exampleContext
      and currentImage = exampleImage and refinementPrompt = "''make it blue''"]
  by (simp add: refusingApi_def replyOfParts_def onlyText_def prod_eq_iff)

text \<open>
  C1 as stated fails: for a reply whose only part is the text
  \<^verbatim>\<open>I cannot create this.\<close>, the error of either function has the fixed
  message, and the text is no part of that message.
\<close>

theorem refusal_text_counterexample:
  "snd (generateGraphic refusingApi exampleConfig exampleContext)
     = Inl (Error ''Failed to generate image. Please try again.'')
   \<and> \<not> sublist ''I cannot create this.'' ''Failed to generate image. Please try again.''
   \<and> snd (refineGraphic refusingApi exampleImage ''make it blue'' exampleConfig exampleContext)
     = Inl (Error ''Failed to refine image. Please try again.'')
   \<and> \<not> sublist ''I cannot create this.'' ''Failed to refine image. Please try again.''"
  by (simp add: generateGraphic_def refineGraphic_def refusingApi_def
        extractImageFromResponse_def replyOfParts_def onlyText_def sublist_Cons_right)

text \<open>A rejected call of the API gets the same fixed message.\<close>

lemma transport_failure_wrapped:
  "generateContent
     \<lparr>req_model = NANO_BANANA_MODEL,
      req_parts = [\<lparr>part_inlineData = None,
                    part_text = Some (constructFullPrompt config ctx)\<rparr>],
      req_aspectRatio = aspectRatio config\<rparr> = Inl rejected \<Longrightarrow>
   generateGraphic generateContent config ctx
     = ([(''Gemini Generation Error:'', rejected)],
        Inl (Error ''Failed to generate image. Please try again.''))"
  by (simp add: generateGraphic_def)

subsection \<open>The image held by the UI\<close>

lemma generatedImage_call:
  "generatedImage (call s st) = (case s of SetGeneratedImage img \<Rightarrow> Some img | _ \<Rightarrow> generatedImage st)"
  by (cases s) simp_all

lemma generatedImage_run:
  "\<forall>s\<in>set calls. \<forall>img. s \<noteq> SetGeneratedImage img \<Longrightarrow>
   generatedImage (run calls st) = generatedImage st"
  unfolding run_def
  by (induction calls arbitrary: st) (auto simp: generatedImage_call split: setter.splits)

text \<open>
  C8: when the request of \<^verbatim>\<open>handleGenerate\<close> or of
  \<^verbatim>\<open>handleRefine\<close> fails, the image held by the UI is the same after any
  number \<open>n\<close> of the handler's setter calls, so at every moment and at the end; the
  handlers set the image only when the request succeeds, to its result.
\<close>

theorem failed_request_keeps_image:
  "(snd (generateGraphic generateContent config ctx) = Inl err \<longrightarrow>
      generatedImage (run (take n (handleGenerate generateContent config ctx)) st)
        = generatedImage st)
   \<and> (generatedImage st = Some current \<longrightarrow>
      snd (refineGraphic generateContent current refinementText config ctx) = Inl err \<longrightarrow>
      generatedImage (run (take n (handleRefine generateContent st refinementText config ctx)) st)
        = generatedImage st)
   \<and> (snd (generateGraphic generateContent config ctx) = Inr result \<longrightarrow>
      generatedImage (run (handleGenerate generateContent config ctx) st) = Some result)
   \<and> (generatedImage st = Some current \<longrightarrow>
      snd (refineGraphic generateContent current refinementText config ctx) = Inr result \<longrightarrow>
      generatedImage (run (handleRefine generateContent st refinementText config ctx) st)
        = Some result)"
proof (intro conjI impI)
  assume "snd (generateGraphic generateContent config ctx) = Inl err"
  then have "\<forall>s\<in>set (handleGenerate generateContent config ctx). \<forall>img. s \<noteq> SetGeneratedImage img"
    by (simp add: handleGenerate_def)
  then have "\<forall>s\<in>set (take n (handleGenerate generateContent config ctx)). \<forall>img. s \<noteq> SetGeneratedImage img"
    by (meson in_set_takeD)
  then show "generatedImage (run (take n (handleGenerate generateContent config ctx)) st)
        = generatedImage st"
    by (rule generatedImage_run)
next
  assume "generatedImage st = Some current"
    "snd (refineGraphic generateContent current refinementText config ctx) = Inl err"
  then have "\<forall>s\<in>set (handleRefine generateContent st refinementText config ctx). \<forall>img. s \<noteq> SetGeneratedImage img"
    by (simp add: handleRefine_def)
  then have "\<forall>s\<in>set (take n (handleRefine generateContent st refinementText config ctx)). \<forall>img. s \<noteq> SetGeneratedImage img"
    by (meson in_set_takeD)
  then show "generatedImage (run (take n (handleRefine generateContent st refinementText config ctx)) st)
        = generatedImage st"
    by (rule generatedImage_run)
next
  assume "snd (generateGraphic generateContent config ctx) = Inr result"
  then show "generatedImage (run (handleGenerate generateContent config ctx) st) = Some result"
    by (simp add: handleGenerate_def run_def)
next
  assume "generatedImage st = Some current"
    "snd (refineGraphic generateContent current refinementText config ctx) = Inr result"
  then show "generatedImage (run (handleRefine generateContent st refinementText config ctx) st)
        = Some result"
    by (simp add: handleRefine_def run_def)
qed

text \<open>A failed generation and a failed refinement, from a state that holds an image.\<close>

theorem failed_request_keeps_image_witness:
  "run (handleGenerate refusingApi exampleConfig exampleContext) exampleState
     = \<lparr>generatedImage = Some exampleImage, isGenerating = False,
        error = Some ''Failed to generate image. Please try again.''\<rparr>
   \<and> generatedImage (run (take 3 (handleGenerate refusingApi exampleConfig exampleContext))
        exampleState) = Some exampleImage
   \<and> run (handleRefine refusingApi exampleState ''make it blue'' exampleConfig exampleContext)
        exampleState
     = \<lparr>generatedImage = Some exampleImage, isGenerating = False,
        error = Some ''Failed to refine image. Please try again.''\<rparr>"
  using failed_request_keeps_image [of refusingApi exampleConfig exampleContext
      "Error ''Failed to generate image. Please try again.''" 3 exampleState
      exampleImage "''make it blue''"]
  by (simp add: generateGraphic_def refineGraphic_def handleGenerate_def handleRefine_def
        run_def refusingApi_def extractImageFromResponse_def replyOfParts_def onlyText_def
        exampleState_def)

end
